theory Spec2Isabelle
  imports
    Main
    "HOL-Library.Word"
    "HOL-Library.DAList"
    "HOL-Library.List_Lexorder"
    "HOL-Library.Char_ord"
begin

section \<open>Values of the Go program\<close>

text \<open>
  The package \<^verbatim>\<open>serrors\<close> (file \<^verbatim>\<open>serrors.go\<close>) is embedded with an explicit store:
  an \<^verbatim>\<open>*Error\<close> is a reference into a list of \<^verbatim>\<open>Error\<close> objects, a
  \<^verbatim>\<open>map[string]string\<close> is a reference into a list of map objects, and \<^verbatim>\<open>nil\<close>
  is \<open>None\<close>. Go's \<^verbatim>\<open>int\<close> is taken at its width on the 64-bit targets.
\<close>

type_synonym int32 = "32 word"
type_synonym go_int = "64 word"
type_synonym ref = nat

text \<open>The entries of one map object: keys are distinct, the order of the list is one
  order in which \<^verbatim>\<open>range\<close> may visit them.\<close>

type_synonym metadata = "(string, string) alist"

subsection \<open>The wire status of google.golang.org/grpc\<close>

text \<open>
  \<^verbatim>\<open>codes.Code\<close> is a \<^verbatim>\<open>uint32\<close>; the named codes are its values 0 to 16.
\<close>

type_synonym codes_Code = "32 word"

abbreviation codes_OK :: codes_Code where "codes_OK \<equiv> 0"
abbreviation codes_Canceled :: codes_Code where "codes_Canceled \<equiv> 1"
abbreviation codes_Unknown :: codes_Code where "codes_Unknown \<equiv> 2"
abbreviation codes_InvalidArgument :: codes_Code where "codes_InvalidArgument \<equiv> 3"
abbreviation codes_DeadlineExceeded :: codes_Code where "codes_DeadlineExceeded \<equiv> 4"
abbreviation codes_NotFound :: codes_Code where "codes_NotFound \<equiv> 5"
abbreviation codes_AlreadyExists :: codes_Code where "codes_AlreadyExists \<equiv> 6"
abbreviation codes_PermissionDenied :: codes_Code where "codes_PermissionDenied \<equiv> 7"
abbreviation codes_ResourceExhausted :: codes_Code where "codes_ResourceExhausted \<equiv> 8"
abbreviation codes_FailedPrecondition :: codes_Code where "codes_FailedPrecondition \<equiv> 9"
abbreviation codes_Aborted :: codes_Code where "codes_Aborted \<equiv> 10"
abbreviation codes_OutOfRange :: codes_Code where "codes_OutOfRange \<equiv> 11"
abbreviation codes_Unimplemented :: codes_Code where "codes_Unimplemented \<equiv> 12"
abbreviation codes_Internal :: codes_Code where "codes_Internal \<equiv> 13"
abbreviation codes_Unavailable :: codes_Code where "codes_Unavailable \<equiv> 14"
abbreviation codes_DataLoss :: codes_Code where "codes_DataLoss \<equiv> 15"
abbreviation codes_Unauthenticated :: codes_Code where "codes_Unauthenticated \<equiv> 16"

text \<open>
  A detail of a status is a serialised message. The one kind the package reads is
  \<^verbatim>\<open>errdetails.ErrorInfo\<close>, of which it fills and reads the \<^verbatim>\<open>Metadata\<close> field
  only; the payload holds the entries by value.
\<close>

datatype detail = ErrorInfo metadata | OtherDetail

record grpc_Status =
  s_code :: codes_Code
  s_message :: string
  s_details :: "detail list"

subsection \<open>Error values\<close>

text \<open>
  A value of the interface \<^verbatim>\<open>error\<close>: the nil interface; an \<^verbatim>\<open>*Error\<close> of this
  package (\<open>ErrorPtr None\<close> is the typed nil pointer inside a non-nil interface);
  the \<^verbatim>\<open>*status.Error\<close> that \<^verbatim>\<open>(*Status).Err\<close> builds; or any other error, given
  by the text of its \<^verbatim>\<open>Error()\<close> and the one value of its \<^verbatim>\<open>Unwrap()\<close>
  (\<open>nil_error\<close> when it has none), with no \<^verbatim>\<open>As\<close> or \<^verbatim>\<open>GRPCStatus\<close> method of
  its own.
\<close>

datatype error =
    nil_error
  | ErrorPtr "ref option"
  | StatusErr grpc_Status
  | Opaque string error

text \<open>
  Modelled from the spec: the declaration of the struct \<^verbatim>\<open>Status\<close> is not in
  \<^verbatim>\<open>serrors.go\<close>. Its three fields are the ones the file reads and writes
  (\<^verbatim>\<open>Errcode: int32(code)\<close>, \<^verbatim>\<open>Errmsg: message\<close>, \<^verbatim>\<open>err.Result = md\<close>), the
  code, message and metadata of the spec's Status Record.
\<close>

record Status =
  Errcode :: int32
  Errmsg :: string
  Result :: "ref option"

record Error = Status +
  cause :: error

datatype panic = NilDereference

record heap =
  error_objs :: "Error list"
  map_objs :: "metadata list"

definition alloc_Error :: "heap \<Rightarrow> Error \<Rightarrow> heap \<times> ref" where
  "alloc_Error h obj = (h\<lparr>error_objs := error_objs h @ [obj]\<rparr>, length (error_objs h))"

definition alloc_map :: "heap \<Rightarrow> metadata \<Rightarrow> heap \<times> ref" where
  "alloc_map h m = (h\<lparr>map_objs := map_objs h @ [m]\<rparr>, length (map_objs h))"

text \<open>Reading a field through a nil \<^verbatim>\<open>*Error\<close> panics.\<close>

definition deref :: "heap \<Rightarrow> ref option \<Rightarrow> panic + Error" where
  "deref h p = (case p of None \<Rightarrow> Inl NilDereference | Some r \<Rightarrow> Inr (error_objs h ! r))"

text \<open>Reading a nil map finds no entry.\<close>

definition map_entries :: "heap \<Rightarrow> ref option \<Rightarrow> metadata" where
  "map_entries h m = (case m of None \<Rightarrow> DAList.empty | Some r \<Rightarrow> map_objs h ! r)"

text \<open>\<^verbatim>\<open>new(Error)\<close>: a zeroed object.\<close>

definition zero_Error :: Error where
  "zero_Error = \<lparr>Errcode = 0, Errmsg = [], Result = None, cause = nil_error\<rparr>"

definition UnknownCode :: go_int where
  "UnknownCode = 500"

section \<open>The collaborators outside the package\<close>

subsection \<open>The code mapper of kratos (\<^verbatim>\<open>transport/http/status\<close>)\<close>

text \<open>
  \<^verbatim>\<open>ToGRPCCode\<close> and \<^verbatim>\<open>FromGRPCCode\<close> are two \<^verbatim>\<open>switch\<close> tables between HTTP
  status codes and gRPC codes, with a default each; \<^verbatim>\<open>ClientClosed\<close> is 499.
\<close>

definition ToGRPCCode :: "go_int \<Rightarrow> codes_Code" where
  "ToGRPCCode code =
    (if code = 200 then codes_OK
     else if code = 400 then codes_InvalidArgument
     else if code = 401 then codes_Unauthenticated
     else if code = 403 then codes_PermissionDenied
     else if code = 404 then codes_NotFound
     else if code = 409 then codes_Aborted
     else if code = 429 then codes_ResourceExhausted
     else if code = 500 then codes_Internal
     else if code = 501 then codes_Unimplemented
     else if code = 503 then codes_Unavailable
     else if code = 504 then codes_DeadlineExceeded
     else if code = 499 then codes_Canceled
     else codes_Unknown)"

definition FromGRPCCode :: "codes_Code \<Rightarrow> go_int" where
  "FromGRPCCode code =
    (if code = codes_OK then 200
     else if code = codes_Canceled then 499
     else if code = codes_Unknown then 500
     else if code = codes_InvalidArgument then 400
     else if code = codes_DeadlineExceeded then 504
     else if code = codes_NotFound then 404
     else if code = codes_AlreadyExists then 409
     else if code = codes_PermissionDenied then 403
     else if code = codes_Unauthenticated then 401
     else if code = codes_ResourceExhausted then 429
     else if code = codes_FailedPrecondition then 400
     else if code = codes_Aborted then 409
     else if code = codes_OutOfRange then 400
     else if code = codes_Unimplemented then 501
     else if code = codes_Internal then 500
     else if code = codes_Unavailable then 503
     else if code = codes_DataLoss then 500
     else 500)"

subsection \<open>Formatting (\<^verbatim>\<open>fmt\<close>)\<close>

fun decimal :: "nat \<Rightarrow> string" where
  "decimal n =
    (if n < 10 then [''0123456789'' ! n]
     else decimal (n div 10) @ [''0123456789'' ! (n mod 10)])"

text \<open>The verb \<^verbatim>\<open>%d\<close> on an integer.\<close>

definition fmt_d :: "int \<Rightarrow> string" where
  "fmt_d i = (if i < 0 then CHR ''-'' # decimal (nat (- i)) else decimal (nat i))"

fun join_space :: "string list \<Rightarrow> string" where
  "join_space [] = []"
| "join_space [x] = x"
| "join_space (x # y # ys) = x @ '' '' @ join_space (y # ys)"

text \<open>The verb \<^verbatim>\<open>%v\<close> on a \<^verbatim>\<open>map[string]string\<close>: the entries in the order of
  their keys.\<close>

definition fmt_v_map :: "metadata \<Rightarrow> string" where
  "fmt_v_map m =
    ''map['' @ join_space (map (\<lambda>(k, v). k @ '':'' @ v) (sort_key fst (DAList.impl_of m))) @ '']''"

subsection \<open>The status library (\<^verbatim>\<open>google.golang.org/grpc/status\<close>)\<close>

text \<open>
  A \<^verbatim>\<open>*status.Status\<close> is immutable and handled by value; \<open>None\<close> is the nil
  status, which the accessors read as code \<^verbatim>\<open>OK\<close>, an empty message and no detail.
\<close>

definition status_New :: "codes_Code \<Rightarrow> string \<Rightarrow> grpc_Status" where
  "status_New c msg = \<lparr>s_code = c, s_message = msg, s_details = []\<rparr>"

definition status_Code :: "grpc_Status option \<Rightarrow> codes_Code" where
  "status_Code s = (case s of None \<Rightarrow> codes_OK | Some x \<Rightarrow> s_code x)"

definition status_Message :: "grpc_Status option \<Rightarrow> string" where
  "status_Message s = (case s of None \<Rightarrow> [] | Some x \<Rightarrow> s_message x)"

definition status_Details :: "grpc_Status option \<Rightarrow> detail list" where
  "status_Details s = (case s of None \<Rightarrow> [] | Some x \<Rightarrow> s_details x)"

text \<open>
  \<^verbatim>\<open>(*Status).WithDetails\<close> with one \<^verbatim>\<open>ErrorInfo\<close>: it refuses a status of code
  \<^verbatim>\<open>OK\<close>, then serialises the detail (\<^verbatim>\<open>anypb.New\<close>), and on either failure
  returns the nil status together with a non-nil error. Whether the entries serialise
  is the parameter \<open>marshals\<close>. The second component says that the returned error is
  non-nil.
\<close>

definition WithDetails ::
  "(metadata \<Rightarrow> bool) \<Rightarrow> grpc_Status \<Rightarrow> metadata \<Rightarrow> grpc_Status option \<times> bool" where
  "WithDetails marshals s md =
    (if s_code s = codes_OK then (None, True)
     else if \<not> marshals md then (None, True)
     else (Some (s\<lparr>s_details := s_details s @ [ErrorInfo md]\<rparr>), False))"

text \<open>\<^verbatim>\<open>(*Status).Err\<close>: nil for code \<^verbatim>\<open>OK\<close>, else an error carrying the status.\<close>

definition status_Err :: "grpc_Status option \<Rightarrow> error" where
  "status_Err s =
    (case s of
       None \<Rightarrow> nil_error
     | Some x \<Rightarrow> if s_code x = codes_OK then nil_error else StatusErr x)"

text \<open>\<^verbatim>\<open>codes.Code.String\<close>, which the text of a \<^verbatim>\<open>*status.Error\<close> uses.\<close>

definition codes_String :: "codes_Code \<Rightarrow> string" where
  "codes_String c =
    (if unat c < 17 then
       [''OK'', ''Canceled'', ''Unknown'', ''InvalidArgument'', ''DeadlineExceeded'',
        ''NotFound'', ''AlreadyExists'', ''PermissionDenied'', ''ResourceExhausted'',
        ''FailedPrecondition'', ''Aborted'', ''OutOfRange'', ''Unimplemented'', ''Internal'',
        ''Unavailable'', ''DataLoss'', ''Unauthenticated''] ! unat c
     else ''Code('' @ decimal (unat c) @ '')'')"

subsection \<open>Chain traversal (\<^verbatim>\<open>errors.As\<close>)\<close>

text \<open>
  \<^verbatim>\<open>errors.As(err, &se)\<close> with \<^verbatim>\<open>se\<close> of type \<^verbatim>\<open>*Error\<close>: the first value of
  the chain of \<^verbatim>\<open>Unwrap\<close> whose type is \<^verbatim>\<open>*Error\<close> is stored in \<^verbatim>\<open>se\<close>
  (\<open>Some\<close> of the pointer, which may be nil); \<open>None\<close> when the chain has none.
  The cause of an \<^verbatim>\<open>*Error\<close> is never visited: the traversal stops at it.
\<close>

fun errors_As :: "error \<Rightarrow> ref option option" where
  "errors_As nil_error = None"
| "errors_As (ErrorPtr p) = Some p"
| "errors_As (StatusErr s) = None"
| "errors_As (Opaque txt c) = errors_As c"

section \<open>The package\<close>

subsection \<open>Methods of \<^verbatim>\<open>*Error\<close>\<close>

text \<open>
  \<^verbatim>\<open>Error\<close>: the format has four verbs and the call three operands, so the last verb
  prints as a missing operand.
\<close>

definition Error :: "heap \<Rightarrow> ref option \<Rightarrow> panic + string" where
  "Error h e =
    (case deref h e of
       Inl x \<Rightarrow> Inl x
     | Inr obj \<Rightarrow>
         Inr (''errcode: code = '' @ fmt_d (sint (Errcode obj)) @
              '' errmsg = '' @ Errmsg obj @
              '' result = '' @ fmt_v_map (map_entries h (Result obj)) @
              '' cause = %!v(MISSING)''))"

definition Unwrap :: "heap \<Rightarrow> ref option \<Rightarrow> panic + error" where
  "Unwrap h e = (case deref h e of Inl x \<Rightarrow> Inl x | Inr obj \<Rightarrow> Inr (cause obj))"

text \<open>
  \<^verbatim>\<open>Is\<close>: \<^verbatim>\<open>se := new(Error)\<close> allocates the first target of \<^verbatim>\<open>errors.As\<close>; the
  comparison reads \<^verbatim>\<open>se.Errcode\<close>, then \<^verbatim>\<open>e.Errcode\<close>.
\<close>

definition Is :: "heap \<Rightarrow> ref option \<Rightarrow> error \<Rightarrow> panic + heap \<times> bool" where
  "Is h e err =
    (let (h0, se0) = alloc_Error h zero_Error in
     case errors_As err of
       Some se \<Rightarrow>
         (case deref h0 se of
            Inl x \<Rightarrow> Inl x
          | Inr s \<Rightarrow>
              (case deref h0 e of
                 Inl x \<Rightarrow> Inl x
               | Inr t \<Rightarrow> Inr (h0, Errcode s = Errcode t)))
     | None \<Rightarrow> Inr (h0, False))"

subsection \<open>\<^verbatim>\<open>Clone\<close> and the copying methods\<close>

text \<open>The loop \<^verbatim>\<open>for k, v := range err.Result { metadata[k] = v }\<close> into the map
  that \<^verbatim>\<open>make\<close> has allocated empty.\<close>

definition copy_entries :: "metadata \<Rightarrow> metadata" where
  "copy_entries m =
    fold (\<lambda>(k, v) metadata. DAList.update k v metadata) (DAList.impl_of m) DAList.empty"

definition Clone :: "heap \<Rightarrow> ref option \<Rightarrow> heap \<times> ref option" where
  "Clone h err =
    (case err of
       None \<Rightarrow> (h, None)
     | Some r \<Rightarrow>
         (let obj = error_objs h ! r;
              (h1, metadata) = alloc_map h (copy_entries (map_entries h (Result obj)));
              (h2, new) = alloc_Error h1
                 \<lparr>Errcode = Errcode obj, Errmsg = Errmsg obj, Result = Some metadata,
                  cause = cause obj\<rparr>
          in (h2, Some new)))"

text \<open>An assignment to a field through a pointer; through nil it panics.\<close>

definition assign :: "heap \<Rightarrow> ref option \<Rightarrow> (Error \<Rightarrow> Error) \<Rightarrow> panic + heap" where
  "assign h p f =
    (case p of
       None \<Rightarrow> Inl NilDereference
     | Some r \<Rightarrow> Inr (h\<lparr>error_objs := (error_objs h)[r := f (error_objs h ! r)]\<rparr>))"

definition WithCause :: "heap \<Rightarrow> ref option \<Rightarrow> error \<Rightarrow> panic + heap \<times> ref option" where
  "WithCause h e c =
    (let (h1, err) = Clone h e in
     case assign h1 err (\<lambda>obj. obj\<lparr>cause := c\<rparr>) of
       Inl x \<Rightarrow> Inl x
     | Inr h2 \<Rightarrow> Inr (h2, err))"

definition WithMetadata :: "heap \<Rightarrow> ref option \<Rightarrow> ref option \<Rightarrow> panic + heap \<times> ref option" where
  "WithMetadata h e md =
    (let (h1, err) = Clone h e in
     case assign h1 err (\<lambda>obj. obj\<lparr>Result := md\<rparr>) of
       Inl x \<Rightarrow> Inl x
     | Inr h2 \<Rightarrow> Inr (h2, err))"

subsection \<open>To the wire status\<close>

text \<open>
  \<^verbatim>\<open>GRPCStatus\<close> keeps the first result of \<^verbatim>\<open>WithDetails\<close> and drops its error.
\<close>

definition GRPCStatus :: "(metadata \<Rightarrow> bool) \<Rightarrow> heap \<Rightarrow> ref option \<Rightarrow> panic + grpc_Status option" where
  "GRPCStatus marshals h e =
    (case deref h e of
       Inl x \<Rightarrow> Inl x
     | Inr obj \<Rightarrow>
         (let (s, failed) =
                WithDetails marshals
                  (status_New (ToGRPCCode (scast (Errcode obj))) (Errmsg obj))
                  (map_entries h (Result obj))
          in Inr s))"

subsection \<open>Constructors\<close>

definition New :: "heap \<Rightarrow> go_int \<Rightarrow> string \<Rightarrow> heap \<times> ref option" where
  "New h code message =
    (let (h1, r) = alloc_Error h
        \<lparr>Errcode = ucast code, Errmsg = message, Result = None, cause = nil_error\<rparr>
     in (h1, Some r))"

text \<open>\<^verbatim>\<open>fmt.Sprintf\<close> on a caller's format and operands is the parameter \<open>sprintf\<close>.\<close>

definition Newf :: "(string \<Rightarrow> 'a list \<Rightarrow> string) \<Rightarrow> heap \<Rightarrow> go_int \<Rightarrow> string \<Rightarrow> 'a list \<Rightarrow> heap \<times> ref option" where
  "Newf sprintf h code format a = New h code (sprintf format a)"

definition Errorf :: "(string \<Rightarrow> 'a list \<Rightarrow> string) \<Rightarrow> heap \<Rightarrow> go_int \<Rightarrow> string \<Rightarrow> 'a list \<Rightarrow> heap \<times> error" where
  "Errorf sprintf h code format a =
    (let (h1, e) = New h code (sprintf format a) in (h1, ErrorPtr e))"

subsection \<open>From an error value\<close>

text \<open>Method dispatch through the interface \<^verbatim>\<open>error\<close>: \<^verbatim>\<open>err.Error()\<close>. A call on
  the nil interface panics.\<close>

definition error_Error :: "heap \<Rightarrow> error \<Rightarrow> panic + string" where
  "error_Error h err =
    (case err of
       nil_error \<Rightarrow> Inl NilDereference
     | ErrorPtr p \<Rightarrow> Error h p
     | StatusErr s \<Rightarrow>
         Inr (''rpc error: code = '' @ codes_String (s_code s) @ '' desc = '' @ s_message s)
     | Opaque txt c \<Rightarrow> Inr txt)"

text \<open>
  \<^verbatim>\<open>errors.As(err, &gs)\<close> inside \<^verbatim>\<open>status.FromError\<close>, followed by
  \<^verbatim>\<open>gs.GRPCStatus()\<close>: the status of the first value of the chain that has the method
  \<^verbatim>\<open>GRPCStatus\<close>, an \<^verbatim>\<open>*Error\<close> or a \<^verbatim>\<open>*status.Error\<close>; \<open>None\<close> when the chain
  has none or its status is nil.
\<close>

fun wrapped_GRPCStatus :: "(metadata \<Rightarrow> bool) \<Rightarrow> heap \<Rightarrow> error \<Rightarrow> panic + grpc_Status option" where
  "wrapped_GRPCStatus marshals h nil_error = Inr None"
| "wrapped_GRPCStatus marshals h (ErrorPtr p) = GRPCStatus marshals h p"
| "wrapped_GRPCStatus marshals h (StatusErr s) = Inr (Some s)"
| "wrapped_GRPCStatus marshals h (Opaque txt c) = wrapped_GRPCStatus marshals h c"

text \<open>
  \<^verbatim>\<open>status.FromError\<close>, in the version that follows wrapped errors: a value that
  has the method \<^verbatim>\<open>GRPCStatus\<close> gives its status; a value that wraps one gives that
  status with the text of the outer error as message; a nil status, or none, gives code
  \<^verbatim>\<open>Unknown\<close> with the text of the error, and \<^verbatim>\<open>false\<close>. The package reaches it
  only with a chain that holds no \<^verbatim>\<open>*Error\<close>, where the older version, which looks
  at the outermost value alone, differs on one input: an error that wraps a
  \<^verbatim>\<open>*status.Error\<close>.
\<close>

fun status_FromError :: "(metadata \<Rightarrow> bool) \<Rightarrow> heap \<Rightarrow> error \<Rightarrow> panic + grpc_Status option \<times> bool" where
  "status_FromError marshals h nil_error = Inr (None, True)"
| "status_FromError marshals h (ErrorPtr p) =
    (case GRPCStatus marshals h p of
       Inl x \<Rightarrow> Inl x
     | Inr None \<Rightarrow>
         (case Error h p of
            Inl x \<Rightarrow> Inl x
          | Inr txt \<Rightarrow> Inr (Some (status_New codes_Unknown txt), False))
     | Inr (Some s) \<Rightarrow> Inr (Some s, True))"
| "status_FromError marshals h (StatusErr s) = Inr (Some s, True)"
| "status_FromError marshals h (Opaque txt c) =
    (case wrapped_GRPCStatus marshals h c of
       Inl x \<Rightarrow> Inl x
     | Inr None \<Rightarrow> Inr (Some (status_New codes_Unknown txt), False)
     | Inr (Some s) \<Rightarrow> Inr (Some (s\<lparr>s_message := txt\<rparr>), True))"

text \<open>
  \<^verbatim>\<open>d.Metadata\<close> of a detail that \<^verbatim>\<open>Details()\<close> has deserialised: a map object of
  its own, or the nil map when the payload has no entry.
\<close>

definition unmarshalled :: "heap \<Rightarrow> metadata \<Rightarrow> heap \<times> ref option" where
  "unmarshalled h md =
    (if DAList.impl_of md = [] then (h, None)
     else (let (h1, r) = alloc_map h md in (h1, Some r)))"

text \<open>The loop over \<^verbatim>\<open>gs.Details()\<close>: it returns at the first \<^verbatim>\<open>ErrorInfo\<close>.\<close>

fun scan_details :: "heap \<Rightarrow> ref option \<Rightarrow> detail list \<Rightarrow> panic + heap \<times> ref option" where
  "scan_details h ret [] = Inr (h, ret)"
| "scan_details h ret (ErrorInfo md # ds) =
    (let (h1, m) = unmarshalled h md in WithMetadata h1 ret m)"
| "scan_details h ret (OtherDetail # ds) = scan_details h ret ds"

definition FromError :: "(metadata \<Rightarrow> bool) \<Rightarrow> heap \<Rightarrow> error \<Rightarrow> panic + heap \<times> ref option" where
  "FromError marshals h err =
    (if err = nil_error then Inr (h, None)
     else
       (let (h0, se0) = alloc_Error h zero_Error in
        case errors_As err of
          Some se \<Rightarrow> Inr (h0, se)
        | None \<Rightarrow>
            (case status_FromError marshals h0 err of
               Inl x \<Rightarrow> Inl x
             | Inr (gs, ok) \<Rightarrow>
                 if \<not> ok then
                   (case error_Error h0 err of
                      Inl x \<Rightarrow> Inl x
                    | Inr txt \<Rightarrow> Inr (New h0 UnknownCode txt))
                 else
                   (let (h1, ret) = New h0 (FromGRPCCode (status_Code gs)) (status_Message gs)
                    in scan_details h1 ret (status_Details gs)))))"

definition Code :: "(metadata \<Rightarrow> bool) \<Rightarrow> heap \<Rightarrow> error \<Rightarrow> panic + heap \<times> go_int" where
  "Code marshals h err =
    (if err = nil_error then Inr (h, 200)
     else
       (case FromError marshals h err of
          Inl x \<Rightarrow> Inl x
        | Inr (h1, e) \<Rightarrow>
            (case deref h1 e of
               Inl x \<Rightarrow> Inl x
             | Inr obj \<Rightarrow> Inr (h1, scast (Errcode obj)))))"

section \<open>Stating the properties\<close>

text \<open>A non-nil pointer of the program points to an object of the store, and the
  metadata of that object is the nil map or a map of the store.\<close>

definition live_map :: "heap \<Rightarrow> ref option \<Rightarrow> bool" where
  "live_map h m = (case m of None \<Rightarrow> True | Some a \<Rightarrow> a < length (map_objs h))"

definition live :: "heap \<Rightarrow> ref option \<Rightarrow> bool" where
  "live h p =
    (case p of
       None \<Rightarrow> False
     | Some r \<Rightarrow> r < length (error_objs h) \<and> live_map h (Result (error_objs h ! r)))"

text \<open>An operation returns when it does not panic.\<close>

definition returns :: "panic + 'a \<Rightarrow> bool" where
  "returns res = (case res of Inl x \<Rightarrow> False | Inr y \<Rightarrow> True)"

text \<open>The value an operation returns, without the store; and a field read through the
  pointer an operation returns, in the store it returns.\<close>

definition returned :: "panic + heap \<times> 'a \<Rightarrow> panic + 'a" where
  "returned res = (case res of Inl x \<Rightarrow> Inl x | Inr (h, v) \<Rightarrow> Inr v)"

definition field :: "(Error \<Rightarrow> 'a) \<Rightarrow> panic + heap \<times> ref option \<Rightarrow> panic + 'a" where
  "field f res =
    (case res of
       Inl x \<Rightarrow> Inl x
     | Inr (h, p) \<Rightarrow> (case deref h p of Inl x \<Rightarrow> Inl x | Inr obj \<Rightarrow> Inr (f obj)))"

text \<open>The metadata of the object a returned pointer points to, as a finite map.\<close>

definition metadata_of :: "panic + heap \<times> ref option \<Rightarrow> panic + (string \<Rightarrow> string option)" where
  "metadata_of res =
    (case res of
       Inl x \<Rightarrow> Inl x
     | Inr (h, p) \<Rightarrow>
         (case deref h p of
            Inl x \<Rightarrow> Inl x
          | Inr obj \<Rightarrow> Inr (DAList.lookup (map_entries h (Result obj)))))"

text \<open>
  The round trip \<^verbatim>\<open>FromError(e.WithMetadata(m).GRPCStatus().Err())\<close>: the status
  becomes an error value again by \<^verbatim>\<open>Err\<close>, as it does on the receiving side of a
  call.
\<close>

definition round_trip ::
  "(metadata \<Rightarrow> bool) \<Rightarrow> heap \<Rightarrow> ref option \<Rightarrow> ref option \<Rightarrow> panic + heap \<times> ref option" where
  "round_trip marshals h e m =
    (case WithMetadata h e m of
       Inl x \<Rightarrow> Inl x
     | Inr (h1, e1) \<Rightarrow>
         (case GRPCStatus marshals h1 e1 of
            Inl x \<Rightarrow> Inl x
          | Inr s \<Rightarrow> FromError marshals h1 (status_Err s)))"

text \<open>\<^verbatim>\<open>FromError(New(code, message))\<close> and \<^verbatim>\<open>Code(New(code, message))\<close>: the
  pointer that \<^verbatim>\<open>New\<close> returns, converted to the interface \<^verbatim>\<open>error\<close>.\<close>

definition FromError_New ::
  "(metadata \<Rightarrow> bool) \<Rightarrow> heap \<Rightarrow> go_int \<Rightarrow> string \<Rightarrow> panic + heap \<times> ref option" where
  "FromError_New marshals h code message =
    (let (h1, e) = New h code message in FromError marshals h1 (ErrorPtr e))"

definition Code_New ::
  "(metadata \<Rightarrow> bool) \<Rightarrow> heap \<Rightarrow> go_int \<Rightarrow> string \<Rightarrow> panic + heap \<times> go_int" where
  "Code_New marshals h code message =
    (let (h1, e) = New h code message in Code marshals h1 (ErrorPtr e))"

text \<open>An error that neither is nor wraps an \<^verbatim>\<open>*Error\<close> and carries no status: every
  value of its chain is of the fourth kind.\<close>

fun opaque_chain :: "error \<Rightarrow> bool" where
  "opaque_chain nil_error = True"
| "opaque_chain (ErrorPtr p) = False"
| "opaque_chain (StatusErr s) = False"
| "opaque_chain (Opaque txt c) = opaque_chain c"

text \<open>Stores for the examples: the empty one, and one with two \<^verbatim>\<open>Error\<close> objects of
  code 404, the first with a metadata map of one entry and a cause.\<close>

definition empty_heap :: heap where
  "empty_heap = \<lparr>error_objs = [], map_objs = []\<rparr>"

definition example_heap :: heap where
  "example_heap =
    \<lparr>error_objs =
       [\<lparr>Errcode = 404, Errmsg = ''not found'', Result = Some 0,
         cause = Opaque ''no such row'' nil_error\<rparr>,
        \<lparr>Errcode = 404, Errmsg = ''gone'', Result = None, cause = nil_error\<rparr>],
     map_objs = [DAList.update ''resource'' ''user/1'' DAList.empty]\<rparr>"

text \<open>A store with one \<^verbatim>\<open>Error\<close> of code 200, as \<^verbatim>\<open>New(200, "ok")\<close> builds it, and
  one map object.\<close>

definition ok_heap :: heap where
  "ok_heap =
    \<lparr>error_objs = [\<lparr>Errcode = 200, Errmsg = ''ok'', Result = None, cause = nil_error\<rparr>],
     map_objs = [DAList.update ''resource'' ''user/1'' DAList.empty]\<rparr>"

section \<open>Conversions between \<^verbatim>\<open>int\<close> and \<^verbatim>\<open>int32\<close>\<close>

lemma sint_trunc: "sint (ucast (code :: go_int) :: int32) = signed_take_bit 31 (sint code)"
proof -
  have "take_bit 32 (uint code) = take_bit 32 (sint code)"
    by (rule bit_eqI) (auto simp add: bit_simps)
  then show ?thesis
    by (simp add: sint_uint signed_take_bit_eq_iff_take_bit_eq unsigned_ucast_eq)
qed

lemma widen_trunc:
  "sint (scast (ucast (code :: go_int) :: int32) :: go_int) = signed_take_bit 31 (sint code)"
  by (simp add: sint_up_scast is_up sint_trunc)

lemma widen_trunc_id:
  "(scast (ucast (code :: go_int) :: int32) = code) \<longleftrightarrow>
   - (2 ^ 31) \<le> sint code \<and> sint code < 2 ^ 31"
proof -
  have "(scast (ucast code :: int32) = code) \<longleftrightarrow>
        sint (scast (ucast code :: int32) :: go_int) = sint code"
    by (simp add: word_eq_iff_signed [symmetric])
  then show ?thesis
    by (simp add: widen_trunc signed_take_bit_int_eq_self_iff)
qed

lemma FromGRPCCode_int32: "scast (ucast (FromGRPCCode c) :: int32) = FromGRPCCode c"
  by (simp add: FromGRPCCode_def)

section \<open>The copying loop\<close>

lemma fold_update_append:
  "distinct (map fst xs) \<Longrightarrow> fst ` set xs \<inter> fst ` set acc = {} \<Longrightarrow>
   fold (\<lambda>(k, v). AList.update k v) xs acc = acc @ xs"
proof (induction xs arbitrary: acc)
  case Nil
  then show ?case by simp
next
  case (Cons x xs)
  obtain k v where x: "x = (k, v)" by (cases x)
  from Cons.prems have k: "k \<notin> fst ` set acc" by (auto simp: x)
  have upd: "AList.update k v acc = acc @ [(k, v)]"
    using k by (induction acc) auto
  have "fold (\<lambda>(k, v). AList.update k v) xs (acc @ [(k, v)]) = (acc @ [(k, v)]) @ xs"
    using Cons.prems by (intro Cons.IH) (auto simp: x)
  then show ?case by (simp add: x upd)
qed

lemma impl_of_fold_update:
  "DAList.impl_of (fold (\<lambda>(k, v) metadata. DAList.update k v metadata) xs acc) =
   fold (\<lambda>(k, v). AList.update k v) xs (DAList.impl_of acc)"
  by (induction xs arbitrary: acc) (auto simp: DAList.update.rep_eq)

lemma copy_entries_same: "copy_entries m = m"
  by (simp add: copy_entries_def alist_eq_iff impl_of_fold_update fold_update_append
      DAList.empty.rep_eq)

text \<open>\<^verbatim>\<open>range\<close> may visit the entries in any order: the map that the loop fills has
  the same entries.\<close>

lemma visiting_order_irrelevant:
  assumes "set xs = set (DAList.impl_of m)" and "distinct (map fst xs)"
  shows "DAList.lookup (fold (\<lambda>(k, v) metadata. DAList.update k v metadata) xs DAList.empty) =
         DAList.lookup m"
proof -
  have "map_of (fold (\<lambda>(k, v). AList.update k v) xs []) = map_of xs"
    using assms(2) by (simp add: fold_update_append)
  also have "\<dots> = map_of (DAList.impl_of m)"
    using assms by (simp add: map_of_inject_set)
  finally show ?thesis
    by (simp add: DAList.lookup.rep_eq impl_of_fold_update DAList.empty.rep_eq)
qed

section \<open>What the operations build\<close>

lemma New_eq:
  "New h code message =
    (h\<lparr>error_objs := error_objs h @
        [\<lparr>Errcode = ucast code, Errmsg = message, Result = None, cause = nil_error\<rparr>]\<rparr>,
     Some (length (error_objs h)))"
  by (simp add: New_def alloc_Error_def)

lemma Clone_nil: "Clone h None = (h, None)"
  by (simp add: Clone_def)

lemma Clone_Some:
  "Clone h (Some r) =
    (h\<lparr>map_objs := map_objs h @ [map_entries h (Result (error_objs h ! r))],
       error_objs := error_objs h @
        [\<lparr>Errcode = Errcode (error_objs h ! r), Errmsg = Errmsg (error_objs h ! r),
          Result = Some (length (map_objs h)), cause = cause (error_objs h ! r)\<rparr>]\<rparr>,
     Some (length (error_objs h)))"
  by (simp add: Clone_def alloc_map_def alloc_Error_def copy_entries_same Let_def)

lemma WithCause_Some:
  "WithCause h (Some r) c =
    Inr (h\<lparr>map_objs := map_objs h @ [map_entries h (Result (error_objs h ! r))],
       error_objs := error_objs h @
        [\<lparr>Errcode = Errcode (error_objs h ! r), Errmsg = Errmsg (error_objs h ! r),
          Result = Some (length (map_objs h)), cause = c\<rparr>]\<rparr>,
     Some (length (error_objs h)))"
  by (simp add: WithCause_def Clone_Some assign_def)

lemma WithMetadata_Some:
  "WithMetadata h (Some r) md =
    Inr (h\<lparr>map_objs := map_objs h @ [map_entries h (Result (error_objs h ! r))],
       error_objs := error_objs h @
        [\<lparr>Errcode = Errcode (error_objs h ! r), Errmsg = Errmsg (error_objs h ! r),
          Result = md, cause = cause (error_objs h ! r)\<rparr>]\<rparr>,
     Some (length (error_objs h)))"
  by (simp add: WithMetadata_def Clone_Some assign_def)

lemma map_entries_append:
  "live_map h m \<Longrightarrow>
   map_entries (h\<lparr>map_objs := map_objs h @ ms, error_objs := es\<rparr>) m = map_entries h m"
  by (cases m) (simp_all add: live_map_def map_entries_def nth_append)

lemma map_entries_new:
  "map_entries (h\<lparr>map_objs := map_objs h @ [x], error_objs := es\<rparr>)
     (Some (length (map_objs h))) = x"
  by (simp add: map_entries_def)

lemma GRPCStatus_Some:
  "GRPCStatus marshals h (Some r) =
    Inr (fst (WithDetails marshals
       (status_New (ToGRPCCode (scast (Errcode (error_objs h ! r)))) (Errmsg (error_objs h ! r)))
       (map_entries h (Result (error_objs h ! r)))))"
  by (simp add: GRPCStatus_def deref_def split: prod.splits)

text \<open>When the detail attaches, the status carries the mapped code, the message and the
  entries; \<^verbatim>\<open>GRPCStatus\<close> returns the nil status exactly when it does not attach.\<close>

lemma GRPCStatus_attached:
  "ToGRPCCode (scast (Errcode (error_objs h ! r))) \<noteq> codes_OK \<Longrightarrow>
   marshals (map_entries h (Result (error_objs h ! r))) \<Longrightarrow>
   GRPCStatus marshals h (Some r) =
     Inr (Some \<lparr>s_code = ToGRPCCode (scast (Errcode (error_objs h ! r))),
                s_message = Errmsg (error_objs h ! r),
                s_details = [ErrorInfo (map_entries h (Result (error_objs h ! r)))]\<rparr>)"
  by (simp add: GRPCStatus_Some WithDetails_def status_New_def)

lemma GRPCStatus_nil_iff:
  "GRPCStatus marshals h (Some r) = Inr None \<longleftrightarrow>
     ToGRPCCode (scast (Errcode (error_objs h ! r))) = codes_OK \<or>
     \<not> marshals (map_entries h (Result (error_objs h ! r)))"
  by (simp add: GRPCStatus_Some WithDetails_def status_New_def)

lemma FromError_ErrorPtr:
  "FromError marshals h (ErrorPtr p) = Inr (h\<lparr>error_objs := error_objs h @ [zero_Error]\<rparr>, p)"
  by (simp add: FromError_def alloc_Error_def)

lemma FromError_found:
  "errors_As err = Some p \<Longrightarrow>
   FromError marshals h err = Inr (h\<lparr>error_objs := error_objs h @ [zero_Error]\<rparr>, p)"
  by (cases err) (simp_all add: FromError_def alloc_Error_def)

lemma FromError_StatusErr:
  "FromError marshals h (StatusErr s) =
    scan_details
      (h\<lparr>error_objs := error_objs h @
          [zero_Error,
           \<lparr>Errcode = ucast (FromGRPCCode (s_code s)), Errmsg = s_message s, Result = None,
            cause = nil_error\<rparr>]\<rparr>)
      (Some (Suc (length (error_objs h)))) (s_details s)"
  by (simp add: FromError_def alloc_Error_def New_eq status_Code_def status_Message_def
      status_Details_def)

lemma FromError_New_eq:
  "FromError_New marshals h code message =
    Inr (h\<lparr>error_objs := error_objs h @
        [\<lparr>Errcode = ucast code, Errmsg = message, Result = None, cause = nil_error\<rparr>,
         zero_Error]\<rparr>,
     Some (length (error_objs h)))"
  by (simp add: FromError_New_def New_eq FromError_ErrorPtr)

lemma field_FromError_New:
  "field f (FromError_New marshals h code message) =
    Inr (f \<lparr>Errcode = ucast code, Errmsg = message, Result = None, cause = nil_error\<rparr>)"
  by (simp add: FromError_New_eq field_def deref_def)

lemma Code_New_eq:
  "returned (Code_New marshals h code message) = Inr (scast (ucast code :: int32))"
  by (simp add: Code_New_def New_eq Code_def FromError_ErrorPtr deref_def returned_def)

subsection \<open>The loop over the details\<close>

lemma scan_ErrorInfo:
  "\<exists>h' r'. scan_details h (Some r) [ErrorInfo md] = Inr (h', Some r') \<and>
     Errcode (error_objs h' ! r') = Errcode (error_objs h ! r) \<and>
     Errmsg (error_objs h' ! r') = Errmsg (error_objs h ! r) \<and>
     DAList.lookup (map_entries h' (Result (error_objs h' ! r'))) = DAList.lookup md"
proof (cases "DAList.impl_of md = []")
  case True
  then have "md = DAList.empty"
    by (simp add: alist_eq_iff DAList.empty.rep_eq)
  then show ?thesis
    by (simp add: unmarshalled_def WithMetadata_Some map_entries_def DAList.empty.rep_eq)
next
  case False
  then show ?thesis
    by (simp add: unmarshalled_def alloc_map_def WithMetadata_Some map_entries_def nth_append)
qed

lemma scan_returns: "\<exists>h' r'. scan_details h (Some r) ds = Inr (h', Some r')"
proof (induction ds)
  case Nil
  show ?case by simp
next
  case (Cons d ds)
  show ?case
  proof (cases d)
    case (ErrorInfo md)
    then show ?thesis
      by (simp add: WithMetadata_Some split: prod.splits)
  next
    case OtherDetail
    with Cons.IH show ?thesis by simp
  qed
qed

subsection \<open>Chains\<close>

lemma opaque_chain_As: "opaque_chain c \<Longrightarrow> errors_As c = None"
  by (induction c) simp_all

lemma opaque_chain_wrapped: "opaque_chain c \<Longrightarrow> wrapped_GRPCStatus marshals h c = Inr None"
  by (induction c) simp_all

lemma wrapped_returns:
  "errors_As c = None \<Longrightarrow> \<exists>s. wrapped_GRPCStatus marshals h c = Inr s"
  by (induction c) simp_all

text \<open>On a chain without an \<^verbatim>\<open>*Error\<close>, \<^verbatim>\<open>FromError\<close> returns a non-nil pointer.\<close>

lemma FromError_foreign:
  assumes "errors_As err = None" and "err \<noteq> nil_error"
  shows "\<exists>h' r. FromError marshals h err = Inr (h', Some r)"
proof (cases err)
  case nil_error
  with assms show ?thesis by simp
next
  case (ErrorPtr p)
  with assms show ?thesis by simp
next
  case (StatusErr s)
  then show ?thesis
    by (simp add: FromError_StatusErr scan_returns)
next
  case (Opaque msg c)
  with assms have c: "errors_As c = None" by simp
  define h0 where "h0 = h\<lparr>error_objs := error_objs h @ [zero_Error]\<rparr>"
  from wrapped_returns [OF c] obtain s where s: "wrapped_GRPCStatus marshals h0 c = Inr s"
    by blast
  show ?thesis
  proof (cases s)
    case None
    then show ?thesis
      using s c by (simp add: Opaque FromError_def alloc_Error_def h0_def error_Error_def New_eq)
  next
    case (Some st)
    obtain h1 where
      h1: "New h0 (FromGRPCCode (s_code st)) msg = (h1, Some (length (error_objs h0)))"
      by (simp add: New_eq)
    from scan_returns obtain h' r' where
      "scan_details h1 (Some (length (error_objs h0))) (s_details st) = Inr (h', Some r')"
      by blast
    then show ?thesis
      using s c Some h1
      by (simp add: Opaque FromError_def alloc_Error_def h0_def [symmetric] status_Code_def
          status_Message_def status_Details_def)
  qed
qed

subsection \<open>Which operations return\<close>

lemma FromError_returns: "returns (FromError marshals h err)"
proof (cases "err = nil_error")
  case True
  then show ?thesis by (simp add: FromError_def returns_def)
next
  case False
  show ?thesis
  proof (cases "errors_As err")
    case None
    from FromError_foreign [OF None False, of marshals h] obtain h' r where
      "FromError marshals h err = Inr (h', Some r)" by blast
    then show ?thesis
      by (simp add: returns_def)
  next
    case (Some p)
    then show ?thesis by (simp add: FromError_found returns_def)
  qed
qed

lemma Code_returns: "returns (Code marshals h err) \<longleftrightarrow> errors_As err \<noteq> Some None"
proof (cases "err = nil_error")
  case True
  then show ?thesis by (simp add: Code_def returns_def)
next
  case False
  show ?thesis
  proof (cases "errors_As err")
    case None
    from FromError_foreign [OF None False, of marshals h] obtain h' r where
      "FromError marshals h err = Inr (h', Some r)" by blast
    then show ?thesis
      using None False by (simp add: Code_def returns_def deref_def)
  next
    case (Some p)
    then show ?thesis
      using False by (cases p) (simp_all add: Code_def FromError_found returns_def deref_def)
  qed
qed

lemma Is_returns:
  "returns (Is h e err) \<longleftrightarrow>
     errors_As err = None \<or> (errors_As err \<noteq> Some None \<and> e \<noteq> None)"
proof (cases "errors_As err")
  case None
  then show ?thesis by (simp add: Is_def alloc_Error_def returns_def)
next
  case (Some p)
  then show ?thesis
    by (cases p; cases e) (simp_all add: Is_def alloc_Error_def returns_def deref_def)
qed

lemma methods_return:
  "returns (Error h e) \<longleftrightarrow> e \<noteq> None"
  "returns (Unwrap h e) \<longleftrightarrow> e \<noteq> None"
  "returns (WithCause h e c) \<longleftrightarrow> e \<noteq> None"
  "returns (WithMetadata h e m) \<longleftrightarrow> e \<noteq> None"
  "returns (GRPCStatus marshals h e) \<longleftrightarrow> e \<noteq> None"
  by (cases e; simp add: Error_def Unwrap_def WithCause_def WithMetadata_def GRPCStatus_def
      Clone_nil Clone_Some assign_def deref_def returns_def split: prod.splits)+

subsection \<open>The example stores\<close>

lemma live_example_0: "live example_heap (Some 0)"
  by (simp add: live_def live_map_def example_heap_def)

lemma live_example_1: "live example_heap (Some 1)"
  by (simp add: live_def live_map_def example_heap_def)

lemma FromError_opaque_example:
  "field (\<lambda>obj. scast (Errcode obj) :: go_int)
     (FromError (\<lambda>md. True) empty_heap (Opaque ''boom'' nil_error)) = Inr 500"
  by (simp add: FromError_def alloc_Error_def New_def error_Error_def UnknownCode_def field_def
      deref_def empty_heap_def)

section \<open>The round trip through the wire status\<close>

text \<open>
  C1, as it holds: for a live \<^verbatim>\<open>*Error\<close> \<open>e\<close> whose code \<^verbatim>\<open>ToGRPCCode\<close> does not
  map to \<^verbatim>\<open>OK\<close> and a metadata map \<open>m\<close> whose entries serialise into the detail, the
  round trip \<^verbatim>\<open>FromError(e.WithMetadata(m).GRPCStatus().Err())\<close> returns an
  \<^verbatim>\<open>*Error\<close> whose code is \<^verbatim>\<open>FromGRPCCode(ToGRPCCode(e.Errcode))\<close>, whose message is
  the message of \<open>e\<close> and whose metadata has exactly the entries of \<open>m\<close>.
\<close>

theorem round_trip_preserves:
  assumes "live h (Some r)" and "live_map h m"
    and "ToGRPCCode (scast (Errcode (error_objs h ! r))) \<noteq> codes_OK"
    and "marshals (map_entries h m)"
  shows "field (\<lambda>obj. scast (Errcode obj)) (round_trip marshals h (Some r) m) =
           Inr (FromGRPCCode (ToGRPCCode (scast (Errcode (error_objs h ! r))))) \<and>
         field Errmsg (round_trip marshals h (Some r) m) = Inr (Errmsg (error_objs h ! r)) \<and>
         metadata_of (round_trip marshals h (Some r) m) = Inr (DAList.lookup (map_entries h m))"
proof -
  define c where "c = ToGRPCCode (scast (Errcode (error_objs h ! r)))"
  define msg where "msg = Errmsg (error_objs h ! r)"
  define s where "s = \<lparr>s_code = c, s_message = msg, s_details = [ErrorInfo (map_entries h m)]\<rparr>"
  obtain h1 where
    w: "WithMetadata h (Some r) m = Inr (h1, Some (length (error_objs h)))"
    and o1: "error_objs h1 ! length (error_objs h) =
      \<lparr>Errcode = Errcode (error_objs h ! r), Errmsg = msg, Result = m,
       cause = cause (error_objs h ! r)\<rparr>"
    and m1: "map_entries h1 m = map_entries h m"
    using assms(2) by (simp add: WithMetadata_Some msg_def map_entries_append)
  have g: "GRPCStatus marshals h1 (Some (length (error_objs h))) = Inr (Some s)"
    using assms(3,4)
    by (simp add: GRPCStatus_Some o1 m1 WithDetails_def status_New_def s_def c_def)
  have e: "status_Err (Some s) = StatusErr s"
    using assms(3) by (simp add: status_Err_def s_def c_def)
  have rt: "round_trip marshals h (Some r) m = FromError marshals h1 (StatusErr s)"
    by (simp add: round_trip_def w g e)
  define h2 where "h2 = h1\<lparr>error_objs := error_objs h1 @
          [zero_Error,
           \<lparr>Errcode = ucast (FromGRPCCode c), Errmsg = msg, Result = None, cause = nil_error\<rparr>]\<rparr>"
  have f: "FromError marshals h1 (StatusErr s) =
      scan_details h2 (Some (Suc (length (error_objs h1)))) [ErrorInfo (map_entries h m)]"
    by (simp add: FromError_StatusErr s_def h2_def)
  have o2: "error_objs h2 ! Suc (length (error_objs h1)) =
      \<lparr>Errcode = ucast (FromGRPCCode c), Errmsg = msg, Result = None, cause = nil_error\<rparr>"
    by (simp add: h2_def nth_append)
  from scan_ErrorInfo [of h2 "Suc (length (error_objs h1))" "map_entries h m"]
  obtain h' r' where
    sc: "scan_details h2 (Some (Suc (length (error_objs h1)))) [ErrorInfo (map_entries h m)] =
          Inr (h', Some r')"
    and c': "Errcode (error_objs h' ! r') = ucast (FromGRPCCode c)"
    and m': "Errmsg (error_objs h' ! r') = msg"
    and l': "DAList.lookup (map_entries h' (Result (error_objs h' ! r'))) =
          DAList.lookup (map_entries h m)"
    by (auto simp add: o2)
  have res: "round_trip marshals h (Some r) m = Inr (h', Some r')"
    by (simp only: rt f sc)
  show ?thesis
    by (simp add: res field_def metadata_of_def deref_def c' m' l' FromGRPCCode_int32
        c_def [symmetric] msg_def [symmetric])
qed

text \<open>The scenario of the specification: code 404, message \<open>not found\<close>, metadata
  \<open>resource: user/1\<close>.\<close>

theorem round_trip_preserves_witness:
  "live example_heap (Some 0) \<and> live_map example_heap (Some 0) \<and>
   ToGRPCCode (scast (Errcode (error_objs example_heap ! 0))) \<noteq> codes_OK \<and>
   field (\<lambda>obj. scast (Errcode obj)) (round_trip (\<lambda>md. True) example_heap (Some 0) (Some 0)) =
     Inr (404 :: go_int) \<and>
   field Errmsg (round_trip (\<lambda>md. True) example_heap (Some 0) (Some 0)) = Inr ''not found'' \<and>
   metadata_of (round_trip (\<lambda>md. True) example_heap (Some 0) (Some 0)) =
     Inr (DAList.lookup (DAList.update ''resource'' ''user/1'' DAList.empty))"
proof -
  have l: "live example_heap (Some 0)"
    by (rule live_example_0)
  have m: "live_map example_heap (Some 0)"
    by (simp add: live_map_def example_heap_def)
  have c: "ToGRPCCode (scast (Errcode (error_objs example_heap ! 0))) \<noteq> codes_OK"
    by (simp add: example_heap_def ToGRPCCode_def)
  have t: "(\<lambda>md. True) (map_entries example_heap (Some 0))"
    by simp
  have v: "FromGRPCCode (ToGRPCCode (scast (Errcode (error_objs example_heap ! 0)))) = 404"
    "Errmsg (error_objs example_heap ! 0) = ''not found''"
    "map_entries example_heap (Some 0) = DAList.update ''resource'' ''user/1'' DAList.empty"
    by (simp_all add: example_heap_def ToGRPCCode_def FromGRPCCode_def map_entries_def)
  show ?thesis
    using l m c round_trip_preserves [OF l m c t] by (simp add: v)
qed

text \<open>
  C1 as stated fails for an \<^verbatim>\<open>Error\<close> of code 200: the code maps to \<^verbatim>\<open>OK\<close>, no
  detail attaches to a status of code \<^verbatim>\<open>OK\<close> and \<^verbatim>\<open>Err\<close> of such a status is nil,
  so the round trip returns the nil pointer and the metadata is lost.
\<close>

theorem round_trip_counterexample:
  "returned (round_trip (\<lambda>md. True) ok_heap (Some 0) (Some 0)) = Inr None"
  by (simp add: round_trip_def WithMetadata_Some GRPCStatus_Some WithDetails_def status_New_def
      ToGRPCCode_def status_Err_def FromError_def returned_def ok_heap_def)

section \<open>\<^verbatim>\<open>New\<close> and back\<close>

text \<open>
  C2, as it holds: for every code within the range of \<^verbatim>\<open>int32\<close> and every message,
  \<^verbatim>\<open>FromError(New(code, message))\<close> is an \<^verbatim>\<open>*Error\<close> whose code, read as an
  \<^verbatim>\<open>int\<close>, is \<open>code\<close> and whose message is \<open>message\<close>.
\<close>

theorem FromError_New_in_range:
  assumes "- (2 ^ 31) \<le> sint code" and "sint code < 2 ^ 31"
  shows "field (\<lambda>obj. scast (Errcode obj)) (FromError_New marshals h code message) = Inr code \<and>
         field Errmsg (FromError_New marshals h code message) = Inr message"
  using assms by (simp add: field_FromError_New widen_trunc_id)

theorem FromError_New_in_range_witness:
  "- (2 ^ 31) \<le> sint (404 :: go_int) \<and> sint (404 :: go_int) < 2 ^ 31 \<and>
   field (\<lambda>obj. scast (Errcode obj)) (FromError_New (\<lambda>md. True) empty_heap 404 ''not found'')
     = Inr (404 :: go_int) \<and>
   field Errmsg (FromError_New (\<lambda>md. True) empty_heap 404 ''not found'') = Inr ''not found''"
proof -
  have lo: "- (2 ^ 31) \<le> sint (404 :: go_int)" and hi: "sint (404 :: go_int) < 2 ^ 31"
    by simp_all
  show ?thesis
    using lo hi FromError_New_in_range [OF lo hi, of "\<lambda>md. True" empty_heap "''not found''"]
    by blast
qed

text \<open>C2 as stated fails outside that range: the code \<open>2 ^ 32 + 404\<close> comes back
  as 404.\<close>

theorem FromError_New_counterexample:
  "field (\<lambda>obj. scast (Errcode obj))
     (FromError_New (\<lambda>md. True) empty_heap 4294967700 ''not found'') = Inr (404 :: go_int) \<and>
   (404 :: go_int) \<noteq> 4294967700"
  by (simp add: field_FromError_New)

section \<open>Which operations return\<close>

text \<open>
  C3, as it holds: \<^verbatim>\<open>New\<close>, \<^verbatim>\<open>Newf\<close> and \<^verbatim>\<open>Errorf\<close> return a non-nil
  \<^verbatim>\<open>*Error\<close>; \<^verbatim>\<open>Clone\<close> returns nil exactly for nil; \<^verbatim>\<open>FromError\<close> returns for every
  error value, nil included. The methods \<^verbatim>\<open>Error\<close>, \<^verbatim>\<open>Unwrap\<close>, \<^verbatim>\<open>WithCause\<close>,
  \<^verbatim>\<open>WithMetadata\<close> and \<^verbatim>\<open>GRPCStatus\<close> return exactly when their receiver is not nil.
  \<^verbatim>\<open>Code\<close> returns exactly when the first \<^verbatim>\<open>*Error\<close> of the chain of its argument, if
  there is one, is not nil; \<^verbatim>\<open>Is\<close> returns exactly when the chain of its argument has
  no \<^verbatim>\<open>*Error\<close>, or the first one and the receiver are both not nil.
\<close>

theorem operations_return:
  "(\<exists>r. snd (New h code message) = Some r) \<and>
   (\<exists>r. snd (Newf sprintf h code format a) = Some r) \<and>
   (\<exists>r. snd (Errorf sprintf h code format a) = ErrorPtr (Some r)) \<and>
   (snd (Clone h e) = None \<longleftrightarrow> e = None) \<and>
   returns (FromError marshals h err) \<and>
   (returns (Code marshals h err) \<longleftrightarrow> errors_As err \<noteq> Some None) \<and>
   (returns (Error h e) \<longleftrightarrow> e \<noteq> None) \<and>
   (returns (Unwrap h e) \<longleftrightarrow> e \<noteq> None) \<and>
   (returns (WithCause h e c) \<longleftrightarrow> e \<noteq> None) \<and>
   (returns (WithMetadata h e m) \<longleftrightarrow> e \<noteq> None) \<and>
   (returns (GRPCStatus marshals h e) \<longleftrightarrow> e \<noteq> None) \<and>
   (returns (Is h e err) \<longleftrightarrow>
      errors_As err = None \<or> (errors_As err \<noteq> Some None \<and> e \<noteq> None))"
proof -
  have "snd (Clone h e) = None \<longleftrightarrow> e = None"
    by (cases e) (simp_all add: Clone_nil Clone_Some)
  then show ?thesis
    by (simp add: New_eq Newf_def Errorf_def FromError_returns Code_returns Is_returns
        methods_return)
qed

theorem operations_return_witness:
  "returns (FromError (\<lambda>md. True) example_heap (Opaque ''boom'' (ErrorPtr (Some 1)))) \<and>
   returns (Code (\<lambda>md. True) example_heap (Opaque ''boom'' (ErrorPtr (Some 1)))) \<and>
   returns (Error example_heap (Some 0)) \<and>
   returns (Unwrap example_heap (Some 0)) \<and>
   returns (WithCause example_heap (Some 0) nil_error) \<and>
   returns (WithMetadata example_heap (Some 0) None) \<and>
   returns (GRPCStatus (\<lambda>md. True) example_heap (Some 0)) \<and>
   returns (Is example_heap (Some 0) (Opaque ''boom'' (ErrorPtr (Some 1))))"
  using operations_return [where h = example_heap and e = "Some 0" and marshals = "\<lambda>md. True"
      and err = "Opaque ''boom'' (ErrorPtr (Some 1))" and c = nil_error and m = None
      and code = 404 and message = "''not found''" and format = "''not found''"
      and a = "[] :: string list" and sprintf = "\<lambda>f xs. f"]
  by simp

text \<open>C3 as stated fails on a nil \<^verbatim>\<open>*Error\<close>: \<^verbatim>\<open>WithCause\<close> and \<^verbatim>\<open>WithMetadata\<close>
  assign through the nil pointer that \<^verbatim>\<open>Clone\<close> returns, and \<^verbatim>\<open>Code\<close> reads the code
  through the nil pointer that \<^verbatim>\<open>FromError\<close> finds in the interface.\<close>

theorem nil_receiver_counterexample:
  "WithCause example_heap None (Opaque ''timeout'' nil_error) = Inl NilDereference \<and>
   WithMetadata example_heap None (Some 0) = Inl NilDereference \<and>
   Code (\<lambda>md. True) example_heap (ErrorPtr None) = Inl NilDereference"
  by (simp add: WithCause_def WithMetadata_def Clone_nil assign_def Code_def FromError_def
      alloc_Error_def deref_def)

section \<open>A detail that does not attach\<close>

text \<open>
  C4 says that \<^verbatim>\<open>GRPCStatus\<close> then still returns a status with the mapped code and the
  message. The program returns the nil status: for \<^verbatim>\<open>New(200, "ok")\<close> the detail does
  not attach, \<^verbatim>\<open>GRPCStatus\<close> returns nil, and the message read from nil is empty.
\<close>

theorem GRPCStatus_attach_fails_nil:
  "snd (WithDetails (\<lambda>md. True) (status_New (ToGRPCCode 200) ''ok'') DAList.empty) \<and>
   GRPCStatus (\<lambda>md. True) (fst (New empty_heap 200 ''ok'')) (snd (New empty_heap 200 ''ok''))
     = Inr None \<and>
   status_Message None \<noteq> ''ok''"
  by (simp add: New_eq GRPCStatus_Some WithDetails_def status_New_def ToGRPCCode_def
      empty_heap_def map_entries_def status_Message_def)

section \<open>\<^verbatim>\<open>Code\<close>\<close>

text \<open>
  C5. \<^verbatim>\<open>Code(nil)\<close> is 200, and for every non-nil error value \<^verbatim>\<open>Code(err)\<close> is the
  field \<^verbatim>\<open>Errcode\<close>, as an \<^verbatim>\<open>int\<close>, read through the pointer that
  \<^verbatim>\<open>FromError(err)\<close> returns (both panic when that pointer is nil).
\<close>

theorem Code_FromError:
  "Code marshals h nil_error = Inr (h, 200) \<and>
   (err \<noteq> nil_error \<longrightarrow>
      returned (Code marshals h err) =
      field (\<lambda>obj. scast (Errcode obj)) (FromError marshals h err))"
  by (auto simp add: Code_def returned_def field_def split: sum.splits prod.splits)

theorem Code_FromError_witness:
  "Opaque ''boom'' nil_error \<noteq> nil_error \<and>
   Code (\<lambda>md. True) empty_heap nil_error = Inr (empty_heap, 200) \<and>
   returned (Code (\<lambda>md. True) empty_heap (Opaque ''boom'' nil_error)) = Inr 500"
  using Code_FromError [of "\<lambda>md. True" empty_heap "Opaque ''boom'' nil_error"]
  by (simp add: FromError_opaque_example)

section \<open>Errors from elsewhere\<close>

text \<open>
  C6. For a non-nil error value whose chain holds neither an \<^verbatim>\<open>*Error\<close> nor a status,
  \<^verbatim>\<open>FromError\<close> returns an \<^verbatim>\<open>*Error\<close> with code 500, with the text of the value's
  own \<^verbatim>\<open>Error()\<close> as message, with no metadata entry and no cause.
\<close>

theorem FromError_opaque:
  assumes "err \<noteq> nil_error" and "opaque_chain err"
  shows "returns (error_Error h err) \<and>
         field Errmsg (FromError marshals h err) = error_Error h err \<and>
         field (\<lambda>obj. scast (Errcode obj)) (FromError marshals h err) = Inr (500 :: go_int) \<and>
         metadata_of (FromError marshals h err) = Inr Map.empty \<and>
         field cause (FromError marshals h err) = Inr nil_error"
proof -
  from assms obtain msg c where e: "err = Opaque msg c" and oc: "opaque_chain c"
    by (cases err) simp_all
  have "FromError marshals h err =
      Inr (h\<lparr>error_objs := error_objs h @
          [zero_Error, \<lparr>Errcode = 500, Errmsg = msg, Result = None, cause = nil_error\<rparr>]\<rparr>,
        Some (Suc (length (error_objs h))))"
    by (simp add: e FromError_def alloc_Error_def opaque_chain_As [OF oc]
        opaque_chain_wrapped [OF oc] error_Error_def New_eq UnknownCode_def)
  then show ?thesis
    by (simp add: e error_Error_def returns_def field_def metadata_of_def deref_def
        map_entries_def nth_append fun_eq_iff)
qed

theorem FromError_opaque_witness:
  "Opaque ''boom'' (Opaque ''disk full'' nil_error) \<noteq> nil_error \<and>
   opaque_chain (Opaque ''boom'' (Opaque ''disk full'' nil_error)) \<and>
   field Errmsg (FromError (\<lambda>md. True) example_heap (Opaque ''boom'' (Opaque ''disk full'' nil_error)))
     = Inr ''boom'' \<and>
   field (\<lambda>obj. scast (Errcode obj))
     (FromError (\<lambda>md. True) example_heap (Opaque ''boom'' (Opaque ''disk full'' nil_error)))
     = Inr (500 :: go_int) \<and>
   metadata_of (FromError (\<lambda>md. True) example_heap (Opaque ''boom'' (Opaque ''disk full'' nil_error)))
     = Inr Map.empty"
proof -
  have n: "Opaque ''boom'' (Opaque ''disk full'' nil_error) \<noteq> nil_error"
    by simp
  have o: "opaque_chain (Opaque ''boom'' (Opaque ''disk full'' nil_error))"
    by simp
  show ?thesis
    using n o FromError_opaque [OF n o, of example_heap "\<lambda>md. True"]
    by (simp add: error_Error_def)
qed

section \<open>\<^verbatim>\<open>Is\<close>\<close>

text \<open>
  C7. For two live \<^verbatim>\<open>*Error\<close> values, \<^verbatim>\<open>e1.Is(e2)\<close> returns true exactly when their
  codes are equal, whatever their messages, metadata and causes.
\<close>

theorem Is_by_code:
  assumes "live h (Some r1)" and "live h (Some r2)"
  shows "returned (Is h (Some r1) (ErrorPtr (Some r2))) =
         Inr (Errcode (error_objs h ! r1) = Errcode (error_objs h ! r2))"
proof -
  from assms have "r1 < length (error_objs h)" "r2 < length (error_objs h)"
    by (simp_all add: live_def)
  then show ?thesis
    by (auto simp add: Is_def alloc_Error_def deref_def returned_def nth_append)
qed

text \<open>Two errors of code 404 with different messages match.\<close>

theorem Is_by_code_witness:
  "live example_heap (Some 0) \<and> live example_heap (Some 1) \<and>
   Errmsg (error_objs example_heap ! 0) \<noteq> Errmsg (error_objs example_heap ! 1) \<and>
   returned (Is example_heap (Some 0) (ErrorPtr (Some 1))) = Inr True"
proof -
  have "Errmsg (error_objs example_heap ! 0) \<noteq> Errmsg (error_objs example_heap ! 1)"
    "Errcode (error_objs example_heap ! 0) = Errcode (error_objs example_heap ! 1)"
    by (simp_all add: example_heap_def)
  then show ?thesis
    using live_example_0 live_example_1 Is_by_code [OF live_example_0 live_example_1]
    by simp
qed

section \<open>\<^verbatim>\<open>Clone\<close>\<close>

text \<open>
  C8. \<^verbatim>\<open>Clone(nil)\<close> is nil. For a live \<^verbatim>\<open>*Error\<close> \<open>e\<close>, \<^verbatim>\<open>Clone(e)\<close> returns a
  pointer to one new \<^verbatim>\<open>Error\<close> object, appended to the store, with the code, the
  message and the cause value of \<open>e\<close>; its metadata is one new map object, appended to
  the store and so different from the map of \<open>e\<close>, with the same entries as the
  metadata of \<open>e\<close>. The cause is copied as the interface value it is: no object is
  allocated for it.
\<close>

theorem Clone_copy:
  assumes "live h (Some r)"
  shows "Clone h None = (h, None) \<and>
    (\<exists>h' r' m'. Clone h (Some r) = (h', Some r') \<and>
       r' = length (error_objs h) \<and> m' = length (map_objs h) \<and>
       error_objs h' = error_objs h @ [error_objs h' ! r'] \<and>
       map_objs h' = map_objs h @ [map_objs h' ! m'] \<and>
       Errcode (error_objs h' ! r') = Errcode (error_objs h ! r) \<and>
       Errmsg (error_objs h' ! r') = Errmsg (error_objs h ! r) \<and>
       cause (error_objs h' ! r') = cause (error_objs h ! r) \<and>
       Result (error_objs h' ! r') = Some m' \<and>
       Result (error_objs h ! r) \<noteq> Some m' \<and>
       DAList.lookup (map_objs h' ! m') =
         DAList.lookup (map_entries h (Result (error_objs h ! r))))"
proof -
  have "Result (error_objs h ! r) \<noteq> Some (length (map_objs h))"
    using assms by (auto simp: live_def live_map_def)
  then show ?thesis
    by (simp add: Clone_nil Clone_Some)
qed

theorem Clone_copy_witness:
  "live example_heap (Some 0) \<and>
   Clone example_heap None = (example_heap, None) \<and>
   (\<exists>h'. Clone example_heap (Some 0) = (h', Some 2) \<and>
      Errcode (error_objs h' ! 2) = 404 \<and>
      Errmsg (error_objs h' ! 2) = ''not found'' \<and>
      cause (error_objs h' ! 2) = Opaque ''no such row'' nil_error \<and>
      Result (error_objs h' ! 2) = Some 1 \<and>
      DAList.lookup (map_objs h' ! 1) ''resource'' = Some ''user/1'')"
proof -
  have l: "live example_heap (Some 0)"
    by (rule live_example_0)
  from Clone_copy [OF l] obtain h' r' m' where
    c: "Clone example_heap (Some 0) = (h', Some r')"
      "r' = length (error_objs example_heap)" "m' = length (map_objs example_heap)"
      "Errcode (error_objs h' ! r') = Errcode (error_objs example_heap ! 0)"
      "Errmsg (error_objs h' ! r') = Errmsg (error_objs example_heap ! 0)"
      "cause (error_objs h' ! r') = cause (error_objs example_heap ! 0)"
      "Result (error_objs h' ! r') = Some m'"
      "DAList.lookup (map_objs h' ! m') =
         DAList.lookup (map_entries example_heap (Result (error_objs example_heap ! 0)))"
    by blast
  have r': "r' = 2" and m': "m' = 1"
    using c(2,3) by (simp_all add: example_heap_def)
  have "DAList.lookup (map_objs h' ! 1) ''resource'' = Some ''user/1''"
    using c(8) by (simp add: m' example_heap_def map_entries_def)
  moreover have "Errcode (error_objs h' ! 2) = 404" "Errmsg (error_objs h' ! 2) = ''not found''"
    "cause (error_objs h' ! 2) = Opaque ''no such row'' nil_error"
    "Result (error_objs h' ! 2) = Some 1"
    using c(4,5,6,7) by (simp_all add: r' m' example_heap_def)
  ultimately show ?thesis
    using l c(1) Clone_copy [OF l] by (simp add: r')
qed

section \<open>\<^verbatim>\<open>WithCause\<close>\<close>

text \<open>
  C9. For a live \<^verbatim>\<open>*Error\<close> \<open>e\<close> and every error value \<open>cause\<close>,
  \<^verbatim>\<open>e.WithCause(cause)\<close> returns a pointer to another object with the code and the
  message of \<open>e\<close> and with the entries of its metadata, whose \<^verbatim>\<open>Unwrap\<close> is
  \<open>cause\<close>; the object \<open>e\<close> points to and its metadata are as before, and so is every
  object the store held.
\<close>

theorem WithCause_frame:
  assumes "live h (Some r)"
  shows "\<exists>h' r'. WithCause h (Some r) c = Inr (h', Some r') \<and> r' \<noteq> r \<and>
     Errcode (error_objs h' ! r') = Errcode (error_objs h ! r) \<and>
     Errmsg (error_objs h' ! r') = Errmsg (error_objs h ! r) \<and>
     DAList.lookup (map_entries h' (Result (error_objs h' ! r'))) =
       DAList.lookup (map_entries h (Result (error_objs h ! r))) \<and>
     Unwrap h' (Some r') = Inr c \<and>
     error_objs h' ! r = error_objs h ! r \<and>
     map_entries h' (Result (error_objs h' ! r)) = map_entries h (Result (error_objs h ! r)) \<and>
     take (length (error_objs h)) (error_objs h') = error_objs h \<and>
     take (length (map_objs h)) (map_objs h') = map_objs h"
proof -
  from assms have r: "r < length (error_objs h)" and m: "live_map h (Result (error_objs h ! r))"
    by (simp_all add: live_def)
  show ?thesis
    using r m by (simp add: WithCause_Some Unwrap_def deref_def nth_append map_entries_append
        map_entries_new)
qed

theorem WithCause_frame_witness:
  "live example_heap (Some 0) \<and>
   (\<exists>h'. WithCause example_heap (Some 0) (Opaque ''timeout'' nil_error) = Inr (h', Some 2) \<and>
      Errcode (error_objs h' ! 2) = 404 \<and>
      Errmsg (error_objs h' ! 2) = ''not found'' \<and>
      DAList.lookup (map_entries h' (Result (error_objs h' ! 2))) ''resource'' = Some ''user/1'' \<and>
      Unwrap h' (Some 2) = Inr (Opaque ''timeout'' nil_error) \<and>
      error_objs h' ! 0 = error_objs example_heap ! 0 \<and>
      Unwrap h' (Some 0) = Inr (Opaque ''no such row'' nil_error))"
proof -
  have l: "live example_heap (Some 0)"
    by (rule live_example_0)
  from WithCause_frame [OF l, of "Opaque ''timeout'' nil_error"] obtain h' r' where
    w: "WithCause example_heap (Some 0) (Opaque ''timeout'' nil_error) = Inr (h', Some r')"
      "Errcode (error_objs h' ! r') = Errcode (error_objs example_heap ! 0)"
      "Errmsg (error_objs h' ! r') = Errmsg (error_objs example_heap ! 0)"
      "DAList.lookup (map_entries h' (Result (error_objs h' ! r'))) =
         DAList.lookup (map_entries example_heap (Result (error_objs example_heap ! 0)))"
      "Unwrap h' (Some r') = Inr (Opaque ''timeout'' nil_error)"
      "error_objs h' ! 0 = error_objs example_heap ! 0"
    by blast
  have r': "r' = 2"
    using w(1) by (simp add: WithCause_Some example_heap_def)
  have "Errcode (error_objs h' ! 2) = 404" "Errmsg (error_objs h' ! 2) = ''not found''"
    "DAList.lookup (map_entries h' (Result (error_objs h' ! 2))) ''resource'' = Some ''user/1''"
    "Unwrap h' (Some 0) = Inr (Opaque ''no such row'' nil_error)"
    using w(2,3,4,6) by (simp_all add: r' example_heap_def map_entries_def Unwrap_def deref_def)
  then show ?thesis
    using l w(1,5,6) by (simp add: r')
qed

section \<open>The width of the code\<close>

text \<open>
  C10. \<^verbatim>\<open>New\<close> stores \<^verbatim>\<open>int32(code)\<close>: \<^verbatim>\<open>Code(New(code, message))\<close> is the low 32
  bits of \<open>code\<close> read as a signed number, that is \<open>(code + 2^31) mod 2^32 - 2^31\<close>,
  \<^verbatim>\<open>FromError(New(code, message)).Errcode\<close> is the same 32 bits, and the result is
  \<open>code\<close> exactly when \<open>code\<close> is within the range of \<^verbatim>\<open>int32\<close>.
\<close>

theorem Code_New_truncates:
  "returned (Code_New marshals h code message) = Inr (scast (ucast code :: int32)) \<and>
   field Errcode (FromError_New marshals h code message) = Inr (ucast code) \<and>
   sint (scast (ucast code :: int32) :: go_int) = (sint code + 2 ^ 31) mod 2 ^ 32 - 2 ^ 31 \<and>
   ((scast (ucast code :: int32) :: go_int) = code \<longleftrightarrow>
      - (2 ^ 31) \<le> sint code \<and> sint code < 2 ^ 31)"
  by (simp add: Code_New_eq field_FromError_New widen_trunc widen_trunc_id
      signed_take_bit_eq_take_bit_shift take_bit_eq_mod)

theorem Code_New_truncates_witness:
  "returned (Code_New (\<lambda>md. True) empty_heap 4294967700 ''not found'') = Inr 404 \<and>
   field Errcode (FromError_New (\<lambda>md. True) empty_heap 4294967700 ''not found'') = Inr 404 \<and>
   returned (Code_New (\<lambda>md. True) empty_heap (- 1) ''minus one'') = Inr (- 1)"
  using Code_New_truncates [of "\<lambda>md. True" empty_heap 4294967700 "''not found''"]
    Code_New_truncates [of "\<lambda>md. True" empty_heap "- 1" "''minus one''"]
  by simp

end
